theory Spec2Isabelle
  imports Complex_Main "HOL-Library.Log_Nat"
begin

section \<open>JavaScript numbers and request values\<close>

text \<open>
  A JavaScript number is a double. A finite double is held as the rational it denotes
  (\<open>Fin\<close>), beside \<open>NaN\<close> and the two infinities. Every operation that can leave the
  doubles (subtraction, multiplication, division, reading a decimal literal) rounds its
  exact result to the nearest double, ties to even, as IEEE 754 does. The sign of zero is
  not modelled: the handlers never divide by a zero, and a response prints both zeros as
  \<^verbatim>\<open>0\<close>.
\<close>

datatype jsnum = NaN | NegInf | Fin rat | PosInf

text \<open>\<^verbatim>\<open>Number.isNaN(x)\<close>\<close>

definition isNaN :: "jsnum \<Rightarrow> bool" where
  "isNaN x = (x = NaN)"

text \<open>\<^verbatim>\<open>a < b\<close>, \<^verbatim>\<open>a <= b\<close>, \<^verbatim>\<open>a > b\<close>: every comparison with \<open>NaN\<close> is false.\<close>

fun js_lt :: "jsnum \<Rightarrow> jsnum \<Rightarrow> bool" where
  "js_lt (Fin a) (Fin b) = (a < b)"
| "js_lt NegInf (Fin b) = True"
| "js_lt NegInf PosInf = True"
| "js_lt (Fin a) PosInf = True"
| "js_lt _ _ = False"

fun js_le :: "jsnum \<Rightarrow> jsnum \<Rightarrow> bool" where
  "js_le (Fin a) (Fin b) = (a \<le> b)"
| "js_le NaN _ = False"
| "js_le _ NaN = False"
| "js_le NegInf _ = True"
| "js_le _ PosInf = True"
| "js_le _ _ = False"

definition js_gt :: "jsnum \<Rightarrow> jsnum \<Rightarrow> bool" where
  "js_gt a b = js_lt b a"

fun js_neg :: "jsnum \<Rightarrow> jsnum" where
  "js_neg (Fin a) = Fin (- a)"
| "js_neg PosInf = NegInf"
| "js_neg NegInf = PosInf"
| "js_neg NaN = NaN"

subsection \<open>Rounding to the nearest double\<close>

text \<open>\<open>\<lfloor>log\<^sub>2 x\<rfloor>\<close> of a positive rational, from the bit lengths of integers.\<close>

definition ilog2 :: "rat \<Rightarrow> int" where
  "ilog2 x = (if 1 \<le> x then bitlen \<lfloor>x\<rfloor> - 1 else - bitlen (\<lceil>1 / x\<rceil> - 1))"

text \<open>The nearest integer, a tie going to the even one.\<close>

definition round_half_even :: "rat \<Rightarrow> int" where
  "round_half_even r =
     (if r - of_int \<lfloor>r\<rfloor> < 1 / 2 then \<lfloor>r\<rfloor>
      else if 1 / 2 < r - of_int \<lfloor>r\<rfloor> then \<lfloor>r\<rfloor> + 1
      else if even \<lfloor>r\<rfloor> then \<lfloor>r\<rfloor>
      else \<lfloor>r\<rfloor> + 1)"

text \<open>
  The exponent of the unit in the last place of the doubles around a positive \<open>x\<close>: 53
  significant bits, no exponent below that of the subnormal doubles (\<open>-1074\<close>) and none
  above that of the largest doubles (\<open>971\<close>).
\<close>

definition double_exponent :: "rat \<Rightarrow> int" where
  "double_exponent x = min 971 (max (ilog2 x - 52) (- 1074))"

text \<open>The largest finite double.\<close>

definition max_double :: rat where
  "max_double = (2 ^ 53 - 1) * 2 ^ 971"

text \<open>
  A positive rational rounded to a multiple of its unit in the last place; from
  \<open>2\<^sup>1\<^sup>0\<^sup>2\<^sup>4\<close> on the result is \<open>+Infinity\<close>.
\<close>

definition round_pos :: "rat \<Rightarrow> jsnum" where
  "round_pos x =
     (if (2::rat) ^ 1024
           \<le> of_int (round_half_even (x / 2 powi double_exponent x)) * 2 powi double_exponent x
        then PosInf
      else Fin (of_int (round_half_even (x / 2 powi double_exponent x)) * 2 powi double_exponent x))"

definition to_double :: "rat \<Rightarrow> jsnum" where
  "to_double x =
     (if x = 0 then Fin 0
      else if 0 < x then round_pos x
      else js_neg (round_pos (- x)))"

subsection \<open>Arithmetic\<close>

text \<open>\<^verbatim>\<open>a - b\<close>\<close>

fun js_sub :: "jsnum \<Rightarrow> jsnum \<Rightarrow> jsnum" where
  "js_sub (Fin a) (Fin b) = to_double (a - b)"
| "js_sub NaN _ = NaN"
| "js_sub _ NaN = NaN"
| "js_sub PosInf PosInf = NaN"
| "js_sub NegInf NegInf = NaN"
| "js_sub PosInf _ = PosInf"
| "js_sub NegInf _ = NegInf"
| "js_sub (Fin a) PosInf = NegInf"
| "js_sub (Fin a) NegInf = PosInf"

text \<open>\<^verbatim>\<open>a * b\<close>: infinity times zero is \<open>NaN\<close>.\<close>

fun js_mul :: "jsnum \<Rightarrow> jsnum \<Rightarrow> jsnum" where
  "js_mul (Fin a) (Fin b) = to_double (a * b)"
| "js_mul NaN _ = NaN"
| "js_mul _ NaN = NaN"
| "js_mul (Fin a) y = (if a = 0 then NaN else if 0 < a then y else js_neg y)"
| "js_mul x (Fin b) = (if b = 0 then NaN else if 0 < b then x else js_neg x)"
| "js_mul PosInf y = y"
| "js_mul NegInf y = js_neg y"

text \<open>\<^verbatim>\<open>a / b\<close>: a zero divisor is the positive zero, the only zero of the model.\<close>

fun js_div :: "jsnum \<Rightarrow> jsnum \<Rightarrow> jsnum" where
  "js_div (Fin a) (Fin b) =
     (if b = 0 then (if a = 0 then NaN else if 0 < a then PosInf else NegInf)
      else to_double (a / b))"
| "js_div NaN _ = NaN"
| "js_div _ NaN = NaN"
| "js_div (Fin a) _ = Fin 0"
| "js_div x (Fin b) = (if 0 \<le> b then x else js_neg x)"
| "js_div _ _ = NaN"

text \<open>
  What \<^verbatim>\<open>req.body.amount\<close> can be after \<^verbatim>\<open>express.json()\<close>: absent (\<open>JUndefined\<close>) or a
  JSON scalar, a number being the double \<^verbatim>\<open>JSON.parse\<close> read. JSON arrays and objects,
  which \<^verbatim>\<open>Number()\<close> sends through \<^verbatim>\<open>ToPrimitive\<close>, are not part of this model. A string
  is a list of 8-bit code units.
\<close>

datatype jsval = JUndefined | JNull | JBool bool | JNum jsnum | JStr string

subsection \<open>\<^verbatim>\<open>Number(string)\<close>: the StringNumericLiteral grammar of ECMAScript\<close>

text \<open>The white space and line terminators below code unit 256.\<close>

definition is_ws :: "char \<Rightarrow> bool" where
  "is_ws c = (c \<in> set [CHR 0x09, CHR 0x0A, CHR 0x0B, CHR 0x0C, CHR 0x0D, CHR 0x20, CHR 0xA0])"

definition js_trim :: "string \<Rightarrow> string" where
  "js_trim s = rev (dropWhile is_ws (rev (dropWhile is_ws s)))"

definition digit_of :: "char \<Rightarrow> nat option" where
  "digit_of c =
     (let n = (of_char c :: nat) in
      if 48 \<le> n \<and> n \<le> 57 then Some (n - 48)
      else if 97 \<le> n \<and> n \<le> 102 then Some (n - 87)
      else if 65 \<le> n \<and> n \<le> 70 then Some (n - 55)
      else None)"

fun digits_value :: "int \<Rightarrow> int \<Rightarrow> string \<Rightarrow> int option" where
  "digits_value b acc [] = Some acc"
| "digits_value b acc (c # cs) =
     (case digit_of c of
        None \<Rightarrow> None
      | Some d \<Rightarrow> if int d < b then digits_value b (acc * b + int d) cs else None)"

text \<open>One or more digits of base \<open>b\<close>.\<close>

definition parse_digits :: "int \<Rightarrow> string \<Rightarrow> int option" where
  "parse_digits b s = (if s = [] then None else digits_value b 0 s)"

text \<open>
  The mantissa, cut at its first dot into \<open>ip\<close> and \<open>fp\<close> (\<open>fp\<close> starts with the dot when
  there is one): \<^verbatim>\<open>DecimalDigits\<close>, \<^verbatim>\<open>DecimalDigits . DecimalDigits?\<close> or
  \<^verbatim>\<open>. DecimalDigits\<close>.
\<close>

definition mantissa :: "string \<Rightarrow> string \<Rightarrow> rat option" where
  "mantissa ip fp =
     (if fp = [] then map_option of_int (parse_digits 10 ip)
      else if ip = [] \<and> tl fp = [] then None
      else (case (digits_value 10 0 ip, digits_value 10 0 (tl fp)) of
              (Some i, Some f) \<Rightarrow> Some (of_int i + of_int f / 10 ^ length (tl fp))
            | _ \<Rightarrow> None))"

text \<open>The exponent part, \<open>ex\<close> starting with its \<^verbatim>\<open>e\<close> or \<^verbatim>\<open>E\<close> when there is one.\<close>

definition exponent :: "string \<Rightarrow> int option" where
  "exponent ex =
     (if ex = [] then Some 0
      else if tl ex \<noteq> [] \<and> hd (tl ex) = CHR ''+''
        then parse_digits 10 (tl (tl ex))
      else if tl ex \<noteq> [] \<and> hd (tl ex) = CHR ''-''
        then map_option uminus (parse_digits 10 (tl (tl ex)))
      else parse_digits 10 (tl ex))"

definition scale10 :: "rat \<Rightarrow> int \<Rightarrow> rat" where
  "scale10 m e = (if 0 \<le> e then m * 10 ^ nat e else m / 10 ^ nat (- e))"

definition is_e :: "char \<Rightarrow> bool" where
  "is_e c = (c = CHR ''e'' \<or> c = CHR ''E'')"

definition not_e :: "char \<Rightarrow> bool" where
  "not_e c = (\<not> is_e c)"

definition not_dot :: "char \<Rightarrow> bool" where
  "not_dot c = (c \<noteq> CHR ''.'')"

text \<open>\<^verbatim>\<open>StrUnsignedDecimalLiteral\<close>; \<open>None\<close> when the string is not one.\<close>

definition str_unsigned_decimal :: "string \<Rightarrow> jsnum option" where
  "str_unsigned_decimal s =
     (if s = ''Infinity'' then Some PosInf
      else (case (mantissa (takeWhile not_dot (takeWhile not_e s))
                           (dropWhile not_dot (takeWhile not_e s)),
                  exponent (dropWhile not_e s)) of
              (Some m, Some e) \<Rightarrow> Some (to_double (scale10 m e))
            | _ \<Rightarrow> None))"

text \<open>
  \<^verbatim>\<open>StrNumericLiteral\<close>: a hexadecimal, octal or binary integer without sign, or a decimal
  literal with an optional sign.
\<close>

definition str_numeric_literal :: "string \<Rightarrow> jsnum option" where
  "str_numeric_literal s =
     (if take 2 s = ''0x'' \<or> take 2 s = ''0X''
        then map_option (\<lambda>n. to_double (of_int n)) (parse_digits 16 (drop 2 s))
      else if take 2 s = ''0o'' \<or> take 2 s = ''0O''
        then map_option (\<lambda>n. to_double (of_int n)) (parse_digits 8 (drop 2 s))
      else if take 2 s = ''0b'' \<or> take 2 s = ''0B''
        then map_option (\<lambda>n. to_double (of_int n)) (parse_digits 2 (drop 2 s))
      else if s \<noteq> [] \<and> hd s = CHR ''+'' then str_unsigned_decimal (tl s)
      else if s \<noteq> [] \<and> hd s = CHR ''-'' then map_option js_neg (str_unsigned_decimal (tl s))
      else str_unsigned_decimal s)"

text \<open>
  \<^verbatim>\<open>StringToNumber\<close>: white space is trimmed, the empty string is 0, anything that is
  not a numeric literal is \<open>NaN\<close>. The value of a literal is rounded to the nearest
  double (so a literal below the smallest double is 0 and one beyond the largest is an
  infinity), as V8 does for a literal of any length.
\<close>

definition StringToNumber :: "string \<Rightarrow> jsnum" where
  "StringToNumber s =
     (if js_trim s = [] then Fin 0
      else (case str_numeric_literal (js_trim s) of None \<Rightarrow> NaN | Some n \<Rightarrow> n))"

text \<open>\<^verbatim>\<open>Number(v)\<close>\<close>

fun js_Number :: "jsval \<Rightarrow> jsnum" where
  "js_Number JUndefined = NaN"
| "js_Number JNull = Fin 0"
| "js_Number (JBool b) = Fin (if b then 1 else 0)"
| "js_Number (JNum n) = n"
| "js_Number (JStr s) = StringToNumber s"

text \<open>\<^verbatim>\<open>s.split(sep)\<close> for a one-character separator: the empty string gives \<^verbatim>\<open>['']\<close>.\<close>

fun js_split :: "char \<Rightarrow> string \<Rightarrow> string list" where
  "js_split sep [] = [[]]"
| "js_split sep (c # cs) =
     (if c = sep then [] # js_split sep cs
      else (case js_split sep cs of
              [] \<Rightarrow> [[c]]
            | p # ps \<Rightarrow> (c # p) # ps))"

section \<open>The user store (\<^verbatim>\<open>data/store\<close>)\<close>

record account =
  balance :: jsnum
  interestRate :: jsnum
  lastWithdrawal :: "jsnum option"
  currency :: string

record user =
  passwordHash :: string
  account :: "account option"

text \<open>The object \<^verbatim>\<open>users\<close>: its own properties, one per username.\<close>

type_synonym users = "string \<rightharpoonup> user"

text \<open>
  \<^verbatim>\<open>users\<close> is an object literal, so a property read \<^verbatim>\<open>users[key]\<close> that finds no own
  property goes on to \<^verbatim>\<open>Object.prototype\<close>, whose members are functions or objects:
  truthy values with neither a \<^verbatim>\<open>passwordHash\<close> nor an \<^verbatim>\<open>account\<close>.
\<close>

definition object_prototype_keys :: "string list" where
  "object_prototype_keys =
     [''constructor'', ''__defineGetter__'', ''__defineSetter__'', ''hasOwnProperty'',
      ''__lookupGetter__'', ''__lookupSetter__'', ''isPrototypeOf'',
      ''propertyIsEnumerable'', ''toString'', ''valueOf'', ''__proto__'',
      ''toLocaleString'']"

datatype 'a js_member = Undefined | Inherited | Own 'a

definition js_get :: "users \<Rightarrow> string \<Rightarrow> user js_member" where
  "js_get users key =
     (case users key of
        Some u \<Rightarrow> Own u
      | None \<Rightarrow> if key \<in> set object_prototype_keys then Inherited else Undefined)"

text \<open>
  The seed data of the store: \<^verbatim>\<open>customer1\<close>, whose password hash \<open>h\<close> is the salted
  \<^verbatim>\<open>bcrypt.hashSync("bank123", 10)\<close>. The number literals \<^verbatim>\<open>2000\<close> and \<^verbatim>\<open>0.05\<close> are the
  doubles nearest to them.
\<close>

definition users0 :: "string \<Rightarrow> users" where
  "users0 h =
     [''customer1'' \<mapsto>
        \<lparr>passwordHash = h,
         account = Some \<lparr>balance = to_double 2000, interestRate = to_double (1 / 20),
                         lastWithdrawal = None, currency = ''USD''\<rparr>\<rparr>]"

section \<open>Responses\<close>

datatype body =
    Message string
  | AccountView account
  | Withdrawal string jsnum "jsnum option"
  | Interest jsnum jsnum jsnum jsnum string
  | Token string

record response =
  status :: nat
  body :: body

text \<open>The error responses of the handlers, under the names of the error taxonomy.\<close>

definition MissingOrInvalidHeader :: response where
  "MissingOrInvalidHeader =
     \<lparr>status = 401, body = Message ''Missing or invalid Authorization header''\<rparr>"

definition InvalidOrExpiredToken :: response where
  "InvalidOrExpiredToken = \<lparr>status = 401, body = Message ''Invalid or expired token''\<rparr>"

definition InvalidCredentials :: response where
  "InvalidCredentials = \<lparr>status = 401, body = Message ''Invalid credentials''\<rparr>"

definition NotFound :: response where
  "NotFound = \<lparr>status = 404, body = Message ''Account not found''\<rparr>"

definition NotANumber :: response where
  "NotANumber = \<lparr>status = 400, body = Message ''Amount must be a number''\<rparr>"

definition InvalidAmount :: response where
  "InvalidAmount = \<lparr>status = 400, body = Message ''Invalid withdrawal amount''\<rparr>"

definition InsufficientFunds :: response where
  "InsufficientFunds = \<lparr>status = 400, body = Message ''Insufficient funds''\<rparr>"

section \<open>The libraries the handlers call\<close>

text \<open>
  \<^verbatim>\<open>jsonwebtoken\<close> is not part of the repository; the handlers take it as a parameter.
  \<open>jwt_sign lib username secret expiresIn clock\<close> is
  \<^verbatim>\<open>jwt.sign({ username }, secret, { expiresIn })\<close> called at second \<open>clock\<close>;
  \<open>jwt_verify lib token secret clock\<close> is \<^verbatim>\<open>jwt.verify(token, secret)\<close> called at second
  \<open>clock\<close>, \<open>None\<close> when it throws.
\<close>

record jwt_payload =
  username :: "string option"
  iat :: nat
  exp :: nat

record jwt_lib =
  jwt_sign :: "string \<Rightarrow> string \<Rightarrow> string \<Rightarrow> nat \<Rightarrow> string"
  jwt_verify :: "string \<Rightarrow> string \<Rightarrow> nat \<Rightarrow> jwt_payload option"

text \<open>
  \<^verbatim>\<open>bcrypt.compare(s, hash)\<close> of \<^verbatim>\<open>bcryptjs\<close>: the promise is rejected unless both
  arguments are strings; \<open>cmp\<close> is the comparison of a password with a hash proper.
\<close>

definition bcrypt_compare :: "(string \<Rightarrow> string \<Rightarrow> bool) \<Rightarrow> string \<Rightarrow> string option \<Rightarrow> string + bool" where
  "bcrypt_compare cmp s hash =
     (case hash of
        None \<Rightarrow> Inl ''Illegal arguments: string, undefined''
      | Some h \<Rightarrow> Inr (cmp s h))"

text \<open>\<^verbatim>\<open>process.env.JWT_SECRET || 'dev-secret'\<close>: an unset or empty variable is falsy.\<close>

definition jwt_secret :: "string option \<Rightarrow> string" where
  "jwt_secret env =
     (case env of
        None \<Rightarrow> ''dev-secret''
      | Some s \<Rightarrow> if s = [] then ''dev-secret'' else s)"

section \<open>\<^verbatim>\<open>POST /auth/login\<close> (\<^verbatim>\<open>routes/auth\<close>)\<close>

text \<open>\<^verbatim>\<open>user.passwordHash\<close> of what the lookup found.\<close>

fun passwordHash_of :: "user js_member \<Rightarrow> string option" where
  "passwordHash_of (Own u) = Some (passwordHash u)"
| "passwordHash_of Inherited = None"
| "passwordHash_of Undefined = None"

text \<open>
  The handler, for a string username and password. \<open>Inl\<close> is the error the \<^verbatim>\<open>async\<close>
  handler throws (its promise is rejected and the handler sends no response).
\<close>

definition login ::
  "jwt_lib \<Rightarrow> (string \<Rightarrow> string \<Rightarrow> bool) \<Rightarrow> string option \<Rightarrow> nat \<Rightarrow> users \<Rightarrow>
   string \<Rightarrow> string \<Rightarrow> string + response" where
  "login lib cmp env clock users uname password =
     (case js_get users uname of
        Undefined \<Rightarrow> Inr \<lparr>status = 401, body = Message ''Invalid credentials''\<rparr>
      | found \<Rightarrow>
          (case bcrypt_compare cmp password (passwordHash_of found) of
             Inl err \<Rightarrow> Inl err
           | Inr ok \<Rightarrow>
               if \<not> ok then Inr \<lparr>status = 401, body = Message ''Invalid credentials''\<rparr>
               else Inr \<lparr>status = 200,
                         body = Token (jwt_sign lib uname (jwt_secret env) ''1h'' clock)\<rparr>))"

section \<open>The authorization middleware (\<^verbatim>\<open>middleware/auth.js\<close>)\<close>

datatype auth_result = Rejected response | Next "string option"

text \<open>
  \<open>Next u\<close> is the call of \<^verbatim>\<open>next()\<close> with \<^verbatim>\<open>req.user = { username: u }\<close>, where \<open>u\<close>
  is \<open>None\<close> when the payload has no username.
\<close>

text \<open>
  \<^verbatim>\<open>(req.headers.authorization || '').split(' ')\<close>, \<open>authorization\<close> being the header
  (\<open>None\<close> when the request has none).
\<close>

definition header_parts :: "string option \<Rightarrow> string list" where
  "header_parts authorization =
     js_split (CHR '' '') (case authorization of None \<Rightarrow> [] | Some a \<Rightarrow> a)"

definition auth :: "jwt_lib \<Rightarrow> string option \<Rightarrow> nat \<Rightarrow> string option \<Rightarrow> auth_result" where
  "auth lib env clock authorization =
     (let parts = header_parts authorization in
      if length parts \<noteq> 2
        then Rejected \<lparr>status = 401, body = Message ''Missing or invalid Authorization header''\<rparr>
      else if parts ! 0 \<noteq> ''Bearer''
        then Rejected \<lparr>status = 401, body = Message ''Missing or invalid Authorization header''\<rparr>
      else (case jwt_verify lib (parts ! 1) (jwt_secret env) clock of
              None \<Rightarrow> Rejected \<lparr>status = 401, body = Message ''Invalid or expired token''\<rparr>
            | Some payload \<Rightarrow> Next (username payload)))"

section \<open>The account routes (\<^verbatim>\<open>routes/account.js\<close>)\<close>

text \<open>\<open>uname\<close> is \<^verbatim>\<open>req.user.username\<close>; the empty string is falsy.\<close>

definition getAccountForReq :: "users \<Rightarrow> string option \<Rightarrow> account option" where
  "getAccountForReq users uname =
     (case uname of
        None \<Rightarrow> None
      | Some u \<Rightarrow>
          if u = [] then None
          else (case js_get users u of
                  Own usr \<Rightarrow> account usr
                | _ \<Rightarrow> None))"

text \<open>
  The handlers assign to the account object that \<^verbatim>\<open>getAccountForReq\<close> returned, the one
  held by \<^verbatim>\<open>users[username]\<close>: the model writes the changed account back there.
\<close>

definition put_account :: "users \<Rightarrow> string option \<Rightarrow> account \<Rightarrow> users" where
  "put_account users uname acct =
     (case uname of
        None \<Rightarrow> users
      | Some u \<Rightarrow>
          (case users u of
             None \<Rightarrow> users
           | Some usr \<Rightarrow> users(u \<mapsto> usr\<lparr>account := Some acct\<rparr>)))"

text \<open>\<^verbatim>\<open>GET /\<close>\<close>

definition getAccount :: "users \<Rightarrow> string option \<Rightarrow> users \<times> response" where
  "getAccount users uname =
     (case getAccountForReq users uname of
        None \<Rightarrow> (users, \<lparr>status = 404, body = Message ''Account not found''\<rparr>)
      | Some acct \<Rightarrow> (users, \<lparr>status = 200, body = AccountView acct\<rparr>))"

text \<open>\<^verbatim>\<open>POST /withdraw\<close>, \<open>raw\<close> being \<^verbatim>\<open>req.body.amount\<close>\<close>

definition withdraw :: "users \<Rightarrow> string option \<Rightarrow> jsval \<Rightarrow> users \<times> response" where
  "withdraw users uname raw =
     (let amount = js_Number raw in
      if isNaN amount then (users, \<lparr>status = 400, body = Message ''Amount must be a number''\<rparr>)
      else if js_le amount (Fin 0)
        then (users, \<lparr>status = 400, body = Message ''Invalid withdrawal amount''\<rparr>)
      else (case getAccountForReq users uname of
              None \<Rightarrow> (users, \<lparr>status = 404, body = Message ''Account not found''\<rparr>)
            | Some acct \<Rightarrow>
                if js_gt amount (balance acct)
                  then (users, \<lparr>status = 400, body = Message ''Insufficient funds''\<rparr>)
                else
                  (let acct1 = acct\<lparr>balance := js_sub (balance acct) amount\<rparr>;
                       acct2 = acct1\<lparr>lastWithdrawal := Some amount\<rparr>
                   in (put_account users uname acct2,
                       \<lparr>status = 200,
                        body = Withdrawal ''Withdrawal successful''
                                 (balance acct2) (lastWithdrawal acct2)\<rparr>))))"

text \<open>\<^verbatim>\<open>GET /interest\<close>\<close>

definition projectInterest :: "users \<Rightarrow> string option \<Rightarrow> users \<times> response" where
  "projectInterest users uname =
     (case getAccountForReq users uname of
        None \<Rightarrow> (users, \<lparr>status = 404, body = Message ''Account not found''\<rparr>)
      | Some acct \<Rightarrow>
          (let yearlyInterest = js_mul (balance acct) (interestRate acct);
               monthlyInterest = js_div yearlyInterest (Fin 12)
           in (users,
               \<lparr>status = 200,
                body = Interest (balance acct) (interestRate acct) yearlyInterest
                         monthlyInterest (currency acct)\<rparr>)))"

text \<open>
  \<^verbatim>\<open>router.use(auth)\<close>: every account route runs the middleware first and reaches its
  handler only through \<^verbatim>\<open>next()\<close>, with the \<^verbatim>\<open>req.user.username\<close> the middleware set.
\<close>

definition account_route ::
  "jwt_lib \<Rightarrow> string option \<Rightarrow> nat \<Rightarrow> string option \<Rightarrow> users \<Rightarrow> users \<times> response" where
  "account_route lib env clock authorization users =
     (case auth lib env clock authorization of
        Rejected r \<Rightarrow> (users, r)
      | Next uname \<Rightarrow> getAccount users uname)"

definition withdraw_route ::
  "jwt_lib \<Rightarrow> string option \<Rightarrow> nat \<Rightarrow> string option \<Rightarrow> jsval \<Rightarrow> users \<Rightarrow> users \<times> response" where
  "withdraw_route lib env clock authorization raw users =
     (case auth lib env clock authorization of
        Rejected r \<Rightarrow> (users, r)
      | Next uname \<Rightarrow> withdraw users uname raw)"

definition interest_route ::
  "jwt_lib \<Rightarrow> string option \<Rightarrow> nat \<Rightarrow> string option \<Rightarrow> users \<Rightarrow> users \<times> response" where
  "interest_route lib env clock authorization users =
     (case auth lib env clock authorization of
        Rejected r \<Rightarrow> (users, r)
      | Next uname \<Rightarrow> projectInterest users uname)"

text \<open>A sequence of withdraw requests, each with its \<^verbatim>\<open>req.user.username\<close> and amount.\<close>

fun withdraw_seq :: "users \<Rightarrow> (string option \<times> jsval) list \<Rightarrow> users" where
  "withdraw_seq users [] = users"
| "withdraw_seq users ((uname, raw) # rs) = withdraw_seq (fst (withdraw users uname raw)) rs"

section \<open>A reference instance of the libraries, for evaluation\<close>

text \<open>
  A token is \<^verbatim>\<open>username.iat.secret\<close> with the issue time in unary; it expires 3600
  seconds after \<open>iat\<close>, the one lifetime (\<^verbatim>\<open>'1h'\<close>) the handlers sign with. A password
  hash is the password behind a fixed prefix.
\<close>

definition ref_sign :: "string \<Rightarrow> string \<Rightarrow> string \<Rightarrow> nat \<Rightarrow> string" where
  "ref_sign uname secret expiresIn clock =
     uname @ ''.'' @ replicate clock (CHR ''i'') @ ''.'' @ secret"

definition ref_verify :: "string \<Rightarrow> string \<Rightarrow> nat \<Rightarrow> jwt_payload option" where
  "ref_verify token secret clock =
     (case js_split (CHR ''.'') token of
        [u, i, sg] \<Rightarrow>
          if sg = secret \<and> clock < length i + 3600
            then Some \<lparr>username = Some u, iat = length i, exp = length i + 3600\<rparr>
          else None
      | _ \<Rightarrow> None)"

definition ref_jwt :: jwt_lib where
  "ref_jwt = \<lparr>jwt_sign = ref_sign, jwt_verify = ref_verify\<rparr>"

definition ref_hash :: "string \<Rightarrow> string" where
  "ref_hash password = ''$ref$'' @ password"

definition ref_cmp :: "string \<Rightarrow> string \<Rightarrow> bool" where
  "ref_cmp password h = (h = ref_hash password)"

section \<open>Rounding to a double: sign and range\<close>

lemma round_half_even_nonneg: "0 \<le> r \<Longrightarrow> 0 \<le> round_half_even r"
  by (auto simp: round_half_even_def)

lemma round_half_even_le:
  assumes "r \<le> of_int n"
  shows "round_half_even r \<le> n"
proof (cases "\<lfloor>r\<rfloor> = n")
  case True
  with assms have "r = of_int n"
    by (metis of_int_floor_le order_antisym)
  then show ?thesis by (simp add: round_half_even_def)
next
  case False
  from assms have "\<lfloor>r\<rfloor> \<le> n" by (simp add: floor_le_iff) 
  with False have "\<lfloor>r\<rfloor> + 1 \<le> n" by simp
  then show ?thesis by (auto simp: round_half_even_def)
qed

lemma round_pos_not_negative:
  assumes "0 < x"
  shows "round_pos x = PosInf \<or> (\<exists>y. round_pos x = Fin y \<and> 0 \<le> y)"
proof -
  have "0 \<le> x / 2 powi double_exponent x"
    using assms by (simp add: zero_le_divide_iff)
  then have "0 \<le> round_half_even (x / 2 powi double_exponent x)"
    by (rule round_half_even_nonneg)
  then have "(0::rat) \<le> of_int (round_half_even (x / 2 powi double_exponent x)) * 2 powi double_exponent x"
    by simp
  then show ?thesis by (simp add: round_pos_def)
qed

lemma to_double_not_negative: "0 \<le> x \<Longrightarrow> \<not> js_lt (to_double x) (Fin 0)"
  using round_pos_not_negative [of x] by (auto simp: to_double_def)

lemma ilog2_upper:
  assumes "0 < x"
  shows "x < 2 powi (ilog2 x + 1)"
proof (cases "1 \<le> x")
  case True
  then have p: "0 < \<lfloor>x\<rfloor>" by linarith
  from bitlen_bounds [OF p] have "\<lfloor>x\<rfloor> < 2 ^ nat (bitlen \<lfloor>x\<rfloor>)" by simp
  then have "\<lfloor>x\<rfloor> + 1 \<le> 2 ^ nat (bitlen \<lfloor>x\<rfloor>)" by simp
  then have "(of_int (\<lfloor>x\<rfloor> + 1) :: rat) \<le> of_int (2 ^ nat (bitlen \<lfloor>x\<rfloor>))"
    by (simp only: of_int_le_iff)
  moreover have "x < of_int (\<lfloor>x\<rfloor> + 1)" by linarith
  ultimately have "x < 2 ^ nat (bitlen \<lfloor>x\<rfloor>)" by simp
  moreover have "0 \<le> bitlen \<lfloor>x\<rfloor>" by (rule bitlen_nonneg)
  ultimately show ?thesis using True by (simp add: ilog2_def power_int_def)
next
  case False
  let ?c = "\<lceil>1 / x\<rceil> - 1"
  let ?k = "bitlen ?c"
  from False assms have "1 < 1 / x" by (simp add: field_simps)
  then have p: "0 < ?c" by linarith
  from bitlen_bounds [OF p] have "2 ^ nat (?k - 1) \<le> ?c" by simp
  then have "(of_int (2 ^ nat (?k - 1)) :: rat) \<le> of_int ?c" by (simp only: of_int_le_iff)
  moreover have "of_int ?c < 1 / x" by linarith
  ultimately have l: "(2::rat) ^ nat (?k - 1) < 1 / x" by simp
  have k: "1 \<le> ?k" using p by (simp add: bitlen_alt_def)
  from l assms have "x < 1 / 2 ^ nat (?k - 1)"
    by (simp add: field_simps)
  moreover have "(2::rat) powi (- ?k + 1) = 1 / 2 ^ nat (?k - 1)"
    using k by (simp add: power_int_def field_simps nat_diff_distrib)
  ultimately show ?thesis using False by (simp add: ilog2_def)
qed


lemma max_double_less: "max_double < 2 ^ 1024"
  by (simp add: max_double_def)

lemma round_pos_bounded:
  assumes "0 < x" and "x \<le> max_double"
  shows "\<exists>y. round_pos x = Fin y \<and> 0 \<le> y \<and> y \<le> max_double"
proof -
  let ?e = "double_exponent x"
  let ?m = "round_half_even (x / 2 powi ?e)"
  let ?y = "(of_int ?m :: rat) * 2 powi ?e"
  have pe: "(0::rat) < 2 powi ?e" by simp
  have "0 \<le> x / 2 powi ?e" using assms(1) by (simp add: zero_le_divide_iff)
  then have m0: "0 \<le> ?m" by (rule round_half_even_nonneg)
  then have y0: "0 \<le> ?y" by simp
  have ym: "?y \<le> max_double"
  proof (cases "?e = 971")
    case True
    have "x / 2 powi ?e \<le> of_int (2 ^ 53 - 1)"
      using assms(2) by (simp add: True max_double_def field_simps)
    then have "?m \<le> 2 ^ 53 - 1" by (rule round_half_even_le)
    then have "(of_int ?m :: rat) \<le> of_int (2 ^ 53 - 1)" by (simp only: of_int_le_iff)
    then have "(of_int ?m :: rat) \<le> 2 ^ 53 - 1" by simp
    then have "(of_int ?m :: rat) * 2 ^ 971 \<le> (2 ^ 53 - 1) * 2 ^ 971"
      by (rule mult_right_mono) simp
    then show ?thesis by (simp add: True max_double_def)
  next
    case False
    then have e970: "?e \<le> 970" by (simp add: double_exponent_def)
    from False have "ilog2 x - 52 \<le> ?e" by (simp add: double_exponent_def)
    then have "ilog2 x + 1 \<le> ?e + 53" by simp
    then have "(2::rat) powi (ilog2 x + 1) \<le> 2 powi (?e + 53)"
      by (intro power_int_increasing) simp_all
    with ilog2_upper [OF assms(1)] have "x < 2 powi (?e + 53)" by simp
    also have "\<dots> = 2 powi ?e * 2 ^ 53" by (simp add: power_int_add)
    finally have "x / 2 powi ?e < 2 ^ 53" using pe by (simp add: field_simps)
    then have "x / 2 powi ?e \<le> of_int (2 ^ 53)" by simp
    then have "?m \<le> 2 ^ 53" by (rule round_half_even_le)
    then have "(of_int ?m :: rat) \<le> of_int (2 ^ 53)" by (simp only: of_int_le_iff)
    then have "(of_int ?m :: rat) \<le> 2 ^ 53" by simp
    then have "?y \<le> 2 ^ 53 * 2 powi ?e" using pe by (simp add: mult_right_mono)
    also have "\<dots> \<le> 2 ^ 53 * 2 powi 970"
      using e970 by (intro mult_left_mono power_int_increasing) simp_all
    also have "\<dots> \<le> max_double" by (simp add: max_double_def)
    finally show ?thesis .
  qed
  with max_double_less have "\<not> 2 ^ 1024 \<le> ?y" by simp
  then have "round_pos x = Fin ?y" by (simp add: round_pos_def)
  with y0 ym show ?thesis by blast
qed

lemma to_double_bounded:
  assumes "0 \<le> x" and "x \<le> max_double"
  shows "\<exists>y. to_double x = Fin y \<and> 0 \<le> y \<and> y \<le> max_double"
proof (cases "x = 0")
  case True
  then show ?thesis by (simp add: to_double_def max_double_def)
next
  case False
  with assms(1) have "0 < x" by simp
  from round_pos_bounded [OF this assms(2)] \<open>0 < x\<close> show ?thesis
    by (simp add: to_double_def)
qed

text \<open>Rules that let the simplifier compute a rounding at a numeral.\<close>

lemma bitlen_numeral: "bitlen (numeral n) = bitlen (numeral n div 2) + 1"
  by (subst compute_bitlen) simp

lemma bitlen_one: "bitlen 1 = 1"
  by (subst compute_bitlen) simp

lemma floor_rat_numeral: "\<lfloor>(numeral a / numeral b :: rat)\<rfloor> = numeral a div numeral b"
  by (metis floor_divide_of_int_eq of_int_numeral)

lemma ceiling_rat_numeral: "\<lceil>(numeral a / numeral b :: rat)\<rceil> = - (- numeral a div numeral b)"
  by (metis ceiling_def floor_divide_of_int_eq minus_divide_left of_int_minus of_int_numeral)

lemmas double_eval = to_double_def round_pos_def double_exponent_def ilog2_def
  round_half_even_def bitlen_numeral bitlen_one power_int_minus floor_rat_numeral
  ceiling_rat_numeral

lemmas number_eval = StringToNumber_def js_trim_def is_ws_def str_numeric_literal_def
  str_unsigned_decimal_def mantissa_def exponent_def not_e_def is_e_def not_dot_def
  parse_digits_def digit_of_def scale10_def

text \<open>
  Roundings the handlers meet: the literal \<^verbatim>\<open>0.05\<close>; \<^verbatim>\<open>100 / 12\<close>, which is
  8.333333333333334; \<^verbatim>\<open>3 * 0.05\<close>, which is 0.15000000000000002; \<^verbatim>\<open>2000 - 1e-13\<close>, which
  is 2000 again; and the strings \<^verbatim>\<open>"2000.0000000000001"\<close> and \<^verbatim>\<open>"1e-13"\<close>.
\<close>

lemma double_0_05: "to_double (1 / 20) = Fin (3602879701896397 / 72057594037927936)"
  by (simp add: double_eval)

lemma double_2000: "to_double 2000 = Fin 2000"
  by (simp add: double_eval)

lemma div_100_12: "js_div (Fin 100) (Fin 12) = Fin (4691249611844267 / 562949953421312)"
  by (simp add: double_eval)

lemma mul_2000_0_05: "js_mul (Fin 2000) (Fin (3602879701896397 / 72057594037927936)) = Fin 100"
  by (simp add: double_eval)

lemma mul_3_0_05:
  "js_mul (Fin 3) (Fin (3602879701896397 / 72057594037927936)) =
     Fin (1351079888211149 / 9007199254740992)"
  by (simp add: double_eval)

lemma Number_1e_13:
  "js_Number (JStr ''1e-13'') = Fin (3961408125713217 / 39614081257132168796771975168)"
  by (simp add: number_eval double_eval)

lemma sub_2000_1e_13:
  "js_sub (Fin 2000) (Fin (3961408125713217 / 39614081257132168796771975168)) = Fin 2000"
  by (simp add: double_eval)

lemma Number_2000_0000000000001: "js_Number (JStr ''2000.0000000000001'') = Fin 2000"
  by (simp add: number_eval double_eval)

text \<open>
  From 2000, withdrawing 1999.7 and then 0.1 twice leaves 0.09999999999995451, and a third
  0.1 is above that balance.
\<close>

lemma sub_sequence:
  "js_sub (Fin 2000) (Fin (8794773608254669 / 4398046511104)) =
     Fin (1319413953331 / 4398046511104) \<and>
   js_sub (Fin (1319413953331 / 4398046511104)) (Fin (3602879701896397 / 36028797018963968)) =
     Fin (7205759403791155 / 36028797018963968) \<and>
   js_sub (Fin (7205759403791155 / 36028797018963968))
     (Fin (3602879701896397 / 36028797018963968)) =
     Fin (1801439850947379 / 18014398509481984) \<and>
   js_gt (Fin (3602879701896397 / 36028797018963968))
     (Fin (1801439850947379 / 18014398509481984))"
  by (simp add: double_eval js_gt_def)

section \<open>Comparisons and the balance arithmetic\<close>

lemma js_le_zero_iff: "\<not> isNaN a \<Longrightarrow> js_le a (Fin 0) = (\<not> js_gt a (Fin 0))"
  by (cases a) (auto simp: isNaN_def js_gt_def)

lemma js_le_not_gt: "js_le a b \<Longrightarrow> \<not> js_gt a b"
  by (cases a; cases b) (auto simp: js_gt_def)

lemma js_gt_not_NaN: "js_gt a b \<Longrightarrow> \<not> isNaN a"
  by (cases a; cases b) (auto simp: js_gt_def isNaN_def)

lemma js_gt_above_zero: "js_le (Fin 0) b \<Longrightarrow> js_gt a b \<Longrightarrow> js_gt a (Fin 0)"
  by (cases a; cases b) (auto simp: js_gt_def)

lemma not_negative_sub:
  "\<not> js_lt b (Fin 0) \<Longrightarrow> \<not> isNaN a \<Longrightarrow> js_gt a (Fin 0) \<Longrightarrow> \<not> js_gt a b \<Longrightarrow>
   \<not> js_lt (js_sub b a) (Fin 0)"
  by (cases a; cases b) (auto simp: js_gt_def isNaN_def to_double_not_negative)

lemma bounded_sub:
  assumes "\<exists>x. b = Fin x \<and> 0 \<le> x \<and> x \<le> max_double"
    and "\<not> isNaN a" and "js_gt a (Fin 0)" and "\<not> js_gt a b"
  shows "\<exists>y. js_sub b a = Fin y \<and> 0 \<le> y \<and> y \<le> max_double"
proof -
  from assms(1) obtain x where b: "b = Fin x" and x: "0 \<le> x" "x \<le> max_double" by blast
  from assms(2-4) b obtain c where a: "a = Fin c" and c: "0 < c" "c \<le> x"
    by (cases a) (auto simp: js_gt_def isNaN_def)
  from c x have "0 \<le> x - c" and "x - c \<le> max_double" by simp_all
  from to_double_bounded [OF this] show ?thesis by (simp add: a b)
qed

lemma errors_distinct: "distinct [NotANumber, InvalidAmount, NotFound, InsufficientFunds]"
  by (simp add: NotANumber_def InvalidAmount_def NotFound_def InsufficientFunds_def)

section \<open>The withdraw handler, branch by branch\<close>

text \<open>
  The handler as one cascade over the coerced amount, with \<^verbatim>\<open>amount <= 0\<close> read as
  "not above zero" (the amount is not \<open>NaN\<close> there) and the two assignments folded into
  the account that is written back.
\<close>

lemma withdraw_cases:
  "withdraw users uname raw =
     (if isNaN (js_Number raw) then (users, NotANumber)
      else if \<not> js_gt (js_Number raw) (Fin 0) then (users, InvalidAmount)
      else (case getAccountForReq users uname of
              None \<Rightarrow> (users, NotFound)
            | Some acct \<Rightarrow>
                if js_gt (js_Number raw) (balance acct) then (users, InsufficientFunds)
                else (put_account users uname
                        (acct\<lparr>balance := js_sub (balance acct) (js_Number raw),
                              lastWithdrawal := Some (js_Number raw)\<rparr>),
                      \<lparr>status = 200,
                       body = Withdrawal ''Withdrawal successful''
                                (js_sub (balance acct) (js_Number raw))
                                (Some (js_Number raw))\<rparr>)))"
  by (simp add: withdraw_def Let_def js_le_zero_iff NotANumber_def InvalidAmount_def
        NotFound_def InsufficientFunds_def split: option.split)

lemma getAccountForReq_put:
  "getAccountForReq users uname = Some acct \<Longrightarrow>
   getAccountForReq (put_account users uname acct') uname = Some acct'"
  by (auto simp: getAccountForReq_def put_account_def js_get_def
        split: option.splits if_splits js_member.splits)

lemma put_account_eq:
  "getAccountForReq users uname = Some acct \<Longrightarrow>
   \<exists>u usr. uname = Some u \<and> users u = Some usr \<and>
     put_account users uname acct' = users(u \<mapsto> usr\<lparr>account := Some acct'\<rparr>)"
  by (auto simp: getAccountForReq_def put_account_def js_get_def
        split: option.splits if_splits js_member.splits)

text \<open>
  One withdraw request, seen from any account of the store: the account is as it was, or
  it is the request's own account after a withdrawal that passed every check.
\<close>

lemma withdraw_step:
  assumes "getAccountForReq users un = Some acct"
  shows "getAccountForReq (fst (withdraw users un' raw)) un = Some acct \<or>
         (\<exists>a. \<not> isNaN a \<and> js_gt a (Fin 0) \<and> \<not> js_gt a (balance acct) \<and>
            getAccountForReq (fst (withdraw users un' raw)) un =
              Some (acct\<lparr>balance := js_sub (balance acct) a, lastWithdrawal := Some a\<rparr>))"
proof (cases "fst (withdraw users un' raw) = users")
  case True
  with assms show ?thesis by simp
next
  case False
  then obtain acct2 where r: "getAccountForReq users un' = Some acct2"
    and n: "\<not> isNaN (js_Number raw)" and p: "js_gt (js_Number raw) (Fin 0)"
    and g: "\<not> js_gt (js_Number raw) (balance acct2)"
    and w: "fst (withdraw users un' raw) =
              put_account users un'
                (acct2\<lparr>balance := js_sub (balance acct2) (js_Number raw),
                       lastWithdrawal := Some (js_Number raw)\<rparr>)"
    by (auto simp: withdraw_cases split: if_splits option.splits)
  show ?thesis
  proof (cases "un' = un")
    case True
    with r assms have "acct2 = acct" by simp
    with True r n p g w show ?thesis
      using getAccountForReq_put [of users un acct] by auto
  next
    case False
    with r assms w have "getAccountForReq (fst (withdraw users un' raw)) un = Some acct"
      by (auto simp: getAccountForReq_def put_account_def js_get_def
            split: option.splits if_splits js_member.splits)
    then show ?thesis by simp
  qed
qed

text \<open>A property of balances that every passed withdrawal keeps holds along any sequence.\<close>

lemma withdraw_seq_invariant:
  assumes step: "\<And>b a. P b \<Longrightarrow> \<not> isNaN a \<Longrightarrow> js_gt a (Fin 0) \<Longrightarrow> \<not> js_gt a b \<Longrightarrow> P (js_sub b a)"
  shows "getAccountForReq users un = Some acct \<Longrightarrow> P (balance acct) \<Longrightarrow>
         \<exists>acct'. getAccountForReq (withdraw_seq users reqs) un = Some acct' \<and> P (balance acct')"
proof (induction reqs arbitrary: users acct)
  case Nil
  then show ?case by simp
next
  case (Cons r reqs)
  obtain un' raw where r: "r = (un', raw)" by (cases r)
  from withdraw_step [OF Cons.prems(1), of un' raw]
  obtain acct1 where a: "getAccountForReq (fst (withdraw users un' raw)) un = Some acct1"
    and p: "P (balance acct1)"
    using Cons.prems(2) step by auto
  from Cons.IH [OF a p] show ?case by (simp add: r)
qed

text \<open>The seed account and a username the seed store does not hold.\<close>

lemma users0_customer1:
  "getAccountForReq (users0 h) (Some ''customer1'') =
     Some \<lparr>balance = Fin 2000, interestRate = Fin (3602879701896397 / 72057594037927936),
           lastWithdrawal = None, currency = ''USD''\<rparr>"
  by (simp add: getAccountForReq_def js_get_def users0_def double_0_05 double_2000)

lemma users0_ghost: "getAccountForReq (users0 h) (Some ''ghost'') = None"
  by (simp add: getAccountForReq_def js_get_def users0_def object_prototype_keys_def)

section \<open>The seed account under rounding\<close>

lemma Number_0_1: "js_Number (JStr ''0.1'') = Fin (3602879701896397 / 36028797018963968)"
  by (simp add: number_eval double_eval)

lemma Number_1999_7: "js_Number (JStr ''1999.7'') = Fin (8794773608254669 / 4398046511104)"
  by (simp add: number_eval double_eval)

text \<open>
  The string \<^verbatim>\<open>"2000.0000000000001"\<close> is the double 2000: it is not above the seed balance
  and empties the account.
\<close>

lemma withdraw_rounds_to_balance:
  "snd (withdraw (users0 h) (Some ''customer1'') (JStr ''2000.0000000000001'')) =
     \<lparr>status = 200,
      body = Withdrawal ''Withdrawal successful'' (Fin 0) (Some (Fin 2000))\<rparr>"
  by (simp add: withdraw_cases Number_2000_0000000000001 isNaN_def js_gt_def users0_customer1
        double_eval del: js_Number.simps)

text \<open>
  The seed account after the withdrawals \<^verbatim>\<open>"1999.7"\<close>, \<^verbatim>\<open>"0.1"\<close>, \<^verbatim>\<open>"0.1"\<close> holds
  0.09999999999995451, and a further \<^verbatim>\<open>"0.1"\<close> is refused.
\<close>

lemma seed_sequence:
  "getAccountForReq
     (withdraw_seq (users0 h)
        [(Some ''customer1'', JStr ''1999.7''), (Some ''customer1'', JStr ''0.1''),
         (Some ''customer1'', JStr ''0.1'')])
     (Some ''customer1'') =
     Some \<lparr>balance = Fin (1801439850947379 / 18014398509481984),
           interestRate = Fin (3602879701896397 / 72057594037927936),
           lastWithdrawal = Some (Fin (3602879701896397 / 36028797018963968)),
           currency = ''USD''\<rparr> \<and>
   snd (withdraw
          (withdraw_seq (users0 h)
             [(Some ''customer1'', JStr ''1999.7''), (Some ''customer1'', JStr ''0.1''),
              (Some ''customer1'', JStr ''0.1'')])
          (Some ''customer1'') (JStr ''0.1'')) = InsufficientFunds"
proof -
  let ?r = "Fin (3602879701896397 / 72057594037927936)"
  let ?t = "Fin (3602879701896397 / 36028797018963968)"
  let ?a0 = "\<lparr>balance = Fin 2000, interestRate = ?r, lastWithdrawal = None, currency = ''USD''\<rparr>"
  let ?a1 = "\<lparr>balance = Fin (1319413953331 / 4398046511104), interestRate = ?r,
              lastWithdrawal = Some (Fin (8794773608254669 / 4398046511104)), currency = ''USD''\<rparr>"
  let ?a2 = "\<lparr>balance = Fin (7205759403791155 / 36028797018963968), interestRate = ?r,
              lastWithdrawal = Some ?t, currency = ''USD''\<rparr>"
  let ?a3 = "\<lparr>balance = Fin (1801439850947379 / 18014398509481984), interestRate = ?r,
              lastWithdrawal = Some ?t, currency = ''USD''\<rparr>"
  let ?c = "Some ''customer1''"
  have step: "fst (withdraw us ?c raw) = put_account us ?c
                (acct\<lparr>balance := js_sub (balance acct) (js_Number raw),
                      lastWithdrawal := Some (js_Number raw)\<rparr>)"
    if "getAccountForReq us ?c = Some acct" "\<not> isNaN (js_Number raw)"
      "js_gt (js_Number raw) (Fin 0)" "\<not> js_gt (js_Number raw) (balance acct)"
    for us acct raw
    using that by (simp add: withdraw_cases)
  have g0: "getAccountForReq (users0 h) ?c = Some ?a0" by (rule users0_customer1)
  let ?u1 = "fst (withdraw (users0 h) ?c (JStr ''1999.7''))"
  have u1: "?u1 = put_account (users0 h) ?c ?a1"
    using step [OF g0, of "JStr ''1999.7''"] sub_sequence
    by (simp add: Number_1999_7 isNaN_def js_gt_def del: js_Number.simps js_sub.simps)
  have g1: "getAccountForReq ?u1 ?c = Some ?a1"
    unfolding u1 by (rule getAccountForReq_put [OF g0])
  let ?u2 = "fst (withdraw ?u1 ?c (JStr ''0.1''))"
  have u2: "?u2 = put_account ?u1 ?c ?a2"
    using step [OF g1, of "JStr ''0.1''"] sub_sequence
    by (simp add: Number_0_1 isNaN_def js_gt_def del: js_Number.simps js_sub.simps)
  have g2: "getAccountForReq ?u2 ?c = Some ?a2"
    unfolding u2 by (rule getAccountForReq_put [OF g1])
  let ?u3 = "fst (withdraw ?u2 ?c (JStr ''0.1''))"
  have u3: "?u3 = put_account ?u2 ?c ?a3"
    using step [OF g2, of "JStr ''0.1''"] sub_sequence
    by (simp add: Number_0_1 isNaN_def js_gt_def del: js_Number.simps js_sub.simps)
  have g3: "getAccountForReq ?u3 ?c = Some ?a3"
    unfolding u3 by (rule getAccountForReq_put [OF g2])
  have refused: "snd (withdraw us ?c (JStr ''0.1'')) = InsufficientFunds"
    if "getAccountForReq us ?c = Some ?a3" for us
    using that sub_sequence
    by (simp add: withdraw_cases Number_0_1 isNaN_def js_gt_def
          del: js_Number.simps js_sub.simps)
  have r: "snd (withdraw ?u3 ?c (JStr ''0.1'')) = InsufficientFunds"
    by (rule refused [OF g3])
  from g3 r show ?thesis by simp
qed

section \<open>The claims about the account ledger\<close>

text \<open>
  C1. Along every sequence of withdraw requests (for any identities and amounts), an
  account whose balance starts non-negative (\<^verbatim>\<open>0 <= balance\<close>) still resolves and its
  balance is never negative (\<^verbatim>\<open>balance < 0\<close> is false); when the starting balance is a
  finite number up to the largest double, the balance stays one and stays \<^verbatim>\<open>>= 0\<close>. The
  subtraction is the one of doubles, rounded to nearest. In particular a withdraw
  whose coerced amount is above the current balance answers \<open>InsufficientFunds\<close> and
  leaves the store as it was.
\<close>

theorem withdraw_balance_never_negative:
  assumes "getAccountForReq users uname = Some acct" and "js_le (Fin 0) (balance acct)"
  shows "(\<exists>acct'. getAccountForReq (withdraw_seq users reqs) uname = Some acct' \<and>
            \<not> js_lt (balance acct') (Fin 0) \<and>
            ((\<exists>b. balance acct = Fin b \<and> b \<le> max_double) \<longrightarrow>
               (\<exists>b'. balance acct' = Fin b' \<and> 0 \<le> b' \<and> b' \<le> max_double))) \<and>
         (js_gt (js_Number raw) (balance acct) \<longrightarrow>
            withdraw users uname raw = (users, InsufficientFunds))"
proof -
  have n0: "\<not> js_lt (balance acct) (Fin 0)"
    using assms(2) by (cases "balance acct") auto
  from withdraw_seq_invariant [where P = "\<lambda>b. \<not> js_lt b (Fin 0)", OF not_negative_sub assms(1) n0]
  obtain acct' where a: "getAccountForReq (withdraw_seq users reqs) uname = Some acct'"
    and n: "\<not> js_lt (balance acct') (Fin 0)"
    by blast
  have f: "\<exists>b'. balance acct' = Fin b' \<and> 0 \<le> b' \<and> b' \<le> max_double"
    if "\<exists>b. balance acct = Fin b \<and> b \<le> max_double"
  proof -
    from that assms(2) have "\<exists>x. balance acct = Fin x \<and> 0 \<le> x \<and> x \<le> max_double"
      by auto
    from withdraw_seq_invariant
      [where P = "\<lambda>b. \<exists>x. b = Fin x \<and> 0 \<le> x \<and> x \<le> max_double",
        OF bounded_sub assms(1) this, of reqs] a
    show ?thesis by auto
  qed
  have i: "withdraw users uname raw = (users, InsufficientFunds)"
    if "js_gt (js_Number raw) (balance acct)"
    using that assms js_gt_not_NaN [OF that] js_gt_above_zero [OF assms(2) that]
    by (simp add: withdraw_cases)
  from a n f i show ?thesis by blast
qed

theorem withdraw_balance_never_negative_witness:
  "js_le (Fin 0) (Fin 2000) \<and> 2000 \<le> max_double \<and>
   (\<exists>acct' b'. getAccountForReq
       (withdraw_seq (users0 (ref_hash ''bank123''))
          [(Some ''customer1'', JStr ''1999.7''), (Some ''ghost'', JNum (Fin 5)),
           (Some ''customer1'', JStr ''0.1''), (Some ''customer1'', JStr ''0.1''),
           (Some ''customer1'', JStr ''0.1'')])
       (Some ''customer1'') = Some acct' \<and>
      \<not> js_lt (balance acct') (Fin 0) \<and> balance acct' = Fin b' \<and> 0 \<le> b' \<and>
      b' \<le> max_double) \<and>
   withdraw (users0 (ref_hash ''bank123'')) (Some ''customer1'')
     (JStr ''2000.0000000000002'') = (users0 (ref_hash ''bank123''), InsufficientFunds)"
proof -
  let ?acct = "\<lparr>balance = Fin 2000, interestRate = Fin (3602879701896397 / 72057594037927936),
                 lastWithdrawal = None, currency = ''USD''\<rparr>"
  have a: "getAccountForReq (users0 (ref_hash ''bank123'')) (Some ''customer1'') = Some ?acct"
    by (rule users0_customer1)
  have b: "js_le (Fin 0) (balance ?acct)" by simp
  have m: "(2000::rat) \<le> max_double" by (simp add: max_double_def)
  have g: "js_Number (JStr ''2000.0000000000002'') = Fin (8796093022208001 / 4398046511104)"
    by (simp add: number_eval double_eval)
  from withdraw_balance_never_negative [OF a b,
      of "[(Some ''customer1'', JStr ''1999.7''), (Some ''ghost'', JNum (Fin 5)),
           (Some ''customer1'', JStr ''0.1''), (Some ''customer1'', JStr ''0.1''),
           (Some ''customer1'', JStr ''0.1'')]"
         "JStr ''2000.0000000000002''"] m
  show ?thesis unfolding g by (auto simp: js_gt_def)
qed

text \<open>
  C2. A withdraw whose coerced amount is a number above zero and at most the balance of
  the account the identity resolves to succeeds: the response is 200 with the new balance
  (old balance minus amount, the subtraction of doubles) and \<open>lastWithdrawal = amount\<close>;
  in the store the handler returns, the account has exactly these two fields changed, its
  \<open>interestRate\<close> and \<open>currency\<close> are as before, and no other entry of the store is
  touched. The handler is synchronous, so the store it returns is the only state a later
  request sees.
\<close>

theorem withdraw_success:
  assumes "js_Number raw = amount" and "\<not> isNaN amount" and "js_gt amount (Fin 0)"
    and "getAccountForReq users uname = Some acct" and "js_le amount (balance acct)"
  shows "snd (withdraw users uname raw) =
           \<lparr>status = 200,
            body = Withdrawal ''Withdrawal successful'' (js_sub (balance acct) amount)
                     (Some amount)\<rparr> \<and>
         getAccountForReq (fst (withdraw users uname raw)) uname =
           Some \<lparr>balance = js_sub (balance acct) amount, interestRate = interestRate acct,
                 lastWithdrawal = Some amount, currency = currency acct\<rparr> \<and>
         (\<exists>u usr. uname = Some u \<and> users u = Some usr \<and>
            fst (withdraw users uname raw) =
              users(u \<mapsto> usr\<lparr>account :=
                Some \<lparr>balance = js_sub (balance acct) amount,
                      interestRate = interestRate acct,
                      lastWithdrawal = Some amount, currency = currency acct\<rparr>\<rparr>))"
proof -
  let ?acct' = "acct\<lparr>balance := js_sub (balance acct) amount, lastWithdrawal := Some amount\<rparr>"
  have eq: "?acct' = \<lparr>balance = js_sub (balance acct) amount, interestRate = interestRate acct,
                 lastWithdrawal = Some amount, currency = currency acct\<rparr>"
    by simp
  have w: "withdraw users uname raw =
      (put_account users uname ?acct',
       \<lparr>status = 200,
        body = Withdrawal ''Withdrawal successful'' (js_sub (balance acct) amount)
                 (Some amount)\<rparr>)"
    using assms js_le_not_gt [of amount "balance acct"] by (simp add: withdraw_cases)
  show ?thesis
    using getAccountForReq_put [OF assms(4), of ?acct'] put_account_eq [OF assms(4), of ?acct']
    unfolding w eq by simp
qed

text \<open>
  At the seed account: 500 leaves 1500; the string \<^verbatim>\<open>"1e-13"\<close> is withdrawn with 200 and
  leaves the balance at 2000, the double nearest to the difference.
\<close>

theorem withdraw_success_witness:
  "snd (withdraw (users0 (ref_hash ''bank123'')) (Some ''customer1'') (JNum (Fin 500))) =
     \<lparr>status = 200,
      body = Withdrawal ''Withdrawal successful'' (Fin 1500) (Some (Fin 500))\<rparr> \<and>
   getAccountForReq
     (fst (withdraw (users0 (ref_hash ''bank123'')) (Some ''customer1'') (JNum (Fin 500))))
     (Some ''customer1'') =
     Some \<lparr>balance = Fin 1500, interestRate = Fin (3602879701896397 / 72057594037927936),
           lastWithdrawal = Some (Fin 500), currency = ''USD''\<rparr> \<and>
   snd (withdraw (users0 (ref_hash ''bank123'')) (Some ''customer1'') (JStr ''1e-13'')) =
     \<lparr>status = 200,
      body = Withdrawal ''Withdrawal successful'' (Fin 2000)
               (Some (Fin (3961408125713217 / 39614081257132168796771975168)))\<rparr>"
proof -
  let ?acct = "\<lparr>balance = Fin 2000, interestRate = Fin (3602879701896397 / 72057594037927936),
                 lastWithdrawal = None, currency = ''USD''\<rparr>"
  let ?t = "Fin (3961408125713217 / 39614081257132168796771975168)"
  have 1: "js_Number (JNum (Fin 500)) = Fin 500" by simp
  have 2: "\<not> isNaN (Fin 500)" by (simp add: isNaN_def)
  have 3: "js_gt (Fin 500) (Fin 0)" by (simp add: js_gt_def)
  have 4: "getAccountForReq (users0 (ref_hash ''bank123'')) (Some ''customer1'') = Some ?acct"
    by (rule users0_customer1)
  have 5: "js_le (Fin 500) (balance ?acct)" by simp
  have s: "js_sub (Fin 2000) (Fin 500) = Fin 1500" by (simp add: double_eval)
  have 6: "\<not> isNaN ?t" by (simp add: isNaN_def)
  have 7: "js_gt ?t (Fin 0)" by (simp add: js_gt_def)
  have 8: "js_le ?t (balance ?acct)" by simp
  from withdraw_success [OF 1 2 3 4 5] withdraw_success [OF Number_1e_13 6 7 4 8]
  show ?thesis by (simp add: s sub_2000_1e_13 del: js_sub.simps)
qed

text \<open>
  C3, as stated, fails: \<^verbatim>\<open>null\<close> is not numeric, yet the handler coerces it to 0 and
  answers \<open>InvalidAmount\<close>, not \<open>NotANumber\<close>; \<^verbatim>\<open>true\<close> is not numeric either, yet it is
  coerced to 1 and withdrawn with 200.
\<close>

theorem non_numeric_amount_counterexample:
  "withdraw (users0 (ref_hash ''bank123'')) (Some ''customer1'') JNull =
     (users0 (ref_hash ''bank123''), InvalidAmount) \<and>
   InvalidAmount \<noteq> NotANumber \<and>
   status (snd (withdraw (users0 (ref_hash ''bank123'')) (Some ''customer1'') (JBool True))) =
     200"
  by (simp add: withdraw_cases isNaN_def js_gt_def users0_customer1 InvalidAmount_def
        NotANumber_def)

text \<open>
  C3, amended. The handler coerces the amount with \<^verbatim>\<open>Number()\<close> and then checks in this
  order, each check with its own response: a coerced amount that is \<open>NaN\<close> answers
  \<open>NotANumber\<close> whatever the rest; otherwise an amount not above zero answers
  \<open>InvalidAmount\<close> whatever the account; otherwise an identity with no account answers
  \<open>NotFound\<close>; otherwise an amount above the balance answers \<open>InsufficientFunds\<close>. The
  four responses are pairwise distinct and each of these outcomes leaves the store as it
  was.
\<close>

theorem withdraw_validation_order:
  "(isNaN (js_Number raw) \<longrightarrow> withdraw users uname raw = (users, NotANumber)) \<and>
   (\<not> isNaN (js_Number raw) \<and> \<not> js_gt (js_Number raw) (Fin 0) \<longrightarrow>
      withdraw users uname raw = (users, InvalidAmount)) \<and>
   (js_gt (js_Number raw) (Fin 0) \<and> getAccountForReq users uname = None \<longrightarrow>
      withdraw users uname raw = (users, NotFound)) \<and>
   (js_gt (js_Number raw) (Fin 0) \<and> getAccountForReq users uname = Some acct \<and>
    js_gt (js_Number raw) (balance acct) \<longrightarrow>
      withdraw users uname raw = (users, InsufficientFunds)) \<and>
   distinct [NotANumber, InvalidAmount, NotFound, InsufficientFunds]"
  using js_gt_not_NaN [of "js_Number raw" "Fin 0"] errors_distinct
  by (simp add: withdraw_cases)

theorem withdraw_validation_order_witness:
  "withdraw (users0 (ref_hash ''bank123'')) (Some ''ghost'') (JStr ''abc'') =
     (users0 (ref_hash ''bank123''), NotANumber) \<and>
   withdraw (users0 (ref_hash ''bank123'')) (Some ''ghost'') (JNum (Fin (- 5))) =
     (users0 (ref_hash ''bank123''), InvalidAmount) \<and>
   withdraw (users0 (ref_hash ''bank123'')) (Some ''ghost'') (JNum (Fin 2500)) =
     (users0 (ref_hash ''bank123''), NotFound) \<and>
   withdraw (users0 (ref_hash ''bank123'')) (Some ''customer1'') (JNum (Fin 2500)) =
     (users0 (ref_hash ''bank123''), InsufficientFunds)"
proof -
  let ?U = "users0 (ref_hash ''bank123'')"
  let ?acct = "\<lparr>balance = Fin 2000, interestRate = Fin (3602879701896397 / 72057594037927936),
                 lastWithdrawal = None, currency = ''USD''\<rparr>"
  have g: "getAccountForReq ?U (Some ''ghost'') = None" by (rule users0_ghost)
  have c: "getAccountForReq ?U (Some ''customer1'') = Some ?acct" by (rule users0_customer1)
  have 1: "isNaN (js_Number (JStr ''abc''))" by (simp add: isNaN_def number_eval)
  have 2: "\<not> isNaN (js_Number (JNum (Fin (- 5)))) \<and> \<not> js_gt (js_Number (JNum (Fin (- 5)))) (Fin 0)"
    by (simp add: isNaN_def js_gt_def)
  have 3: "js_gt (js_Number (JNum (Fin 2500))) (Fin 0) \<and> getAccountForReq ?U (Some ''ghost'') = None"
    using g by (simp add: js_gt_def)
  have 4: "js_gt (js_Number (JNum (Fin 2500))) (Fin 0) \<and>
           getAccountForReq ?U (Some ''customer1'') = Some ?acct \<and>
           js_gt (js_Number (JNum (Fin 2500))) (balance ?acct)"
    using c by (simp add: js_gt_def)
  from withdraw_validation_order [of "JStr ''abc''" ?U "Some ''ghost''"] 1
  have a: "withdraw ?U (Some ''ghost'') (JStr ''abc'') = (?U, NotANumber)" by blast
  from withdraw_validation_order [of "JNum (Fin (- 5))" ?U "Some ''ghost''"] 2
  have b: "withdraw ?U (Some ''ghost'') (JNum (Fin (- 5))) = (?U, InvalidAmount)" by blast
  from withdraw_validation_order [of "JNum (Fin 2500)" ?U "Some ''ghost''"] 3
  have d: "withdraw ?U (Some ''ghost'') (JNum (Fin 2500)) = (?U, NotFound)" by blast
  from withdraw_validation_order [of "JNum (Fin 2500)" ?U "Some ''customer1''" ?acct] 4
  have e: "withdraw ?U (Some ''customer1'') (JNum (Fin 2500)) = (?U, InsufficientFunds)" by blast
  from a b d e show ?thesis by blast
qed

text \<open>
  C4, as stated, fails: the non-numeric amount \<^verbatim>\<open>true\<close> does not fail. It is coerced to
  1, the request is answered 200 and the balance of the seed account goes from 2000 to
  1999.
\<close>

theorem non_numeric_amount_mutates_counterexample:
  "status (snd (withdraw (users0 (ref_hash ''bank123'')) (Some ''customer1'') (JBool True))) =
     200 \<and>
   getAccountForReq (users0 (ref_hash ''bank123'')) (Some ''customer1'') =
     Some \<lparr>balance = Fin 2000, interestRate = Fin (3602879701896397 / 72057594037927936),
           lastWithdrawal = None, currency = ''USD''\<rparr> \<and>
   getAccountForReq
     (fst (withdraw (users0 (ref_hash ''bank123'')) (Some ''customer1'') (JBool True)))
     (Some ''customer1'') =
     Some \<lparr>balance = Fin 1999, interestRate = Fin (3602879701896397 / 72057594037927936),
           lastWithdrawal = Some (Fin 1), currency = ''USD''\<rparr>"
proof -
  let ?U = "users0 (ref_hash ''bank123'')"
  let ?acct = "\<lparr>balance = Fin 2000, interestRate = Fin (3602879701896397 / 72057594037927936),
                 lastWithdrawal = None, currency = ''USD''\<rparr>"
  have c: "getAccountForReq ?U (Some ''customer1'') = Some ?acct" by (rule users0_customer1)
  have s: "js_sub (Fin 2000) (Fin 1) = Fin 1999" by (simp add: double_eval)
  have w: "withdraw ?U (Some ''customer1'') (JBool True) =
             (put_account ?U (Some ''customer1'')
                (?acct\<lparr>balance := Fin 1999, lastWithdrawal := Some (Fin 1)\<rparr>),
              \<lparr>status = 200,
               body = Withdrawal ''Withdrawal successful'' (Fin 1999) (Some (Fin 1))\<rparr>)"
    by (simp add: withdraw_cases isNaN_def js_gt_def c s del: js_sub.simps)
  from getAccountForReq_put [OF c] c show ?thesis unfolding w by simp
qed

text \<open>
  C4, amended. A withdraw that answers one of the four errors returns the store it was
  given; and a withdraw whose amount \<^verbatim>\<open>Number()\<close> coerces to \<open>NaN\<close> or to a number
  \<^verbatim>\<open><= 0\<close> always answers one of them, so it never changes the store.
\<close>

theorem withdraw_error_keeps_state:
  assumes "snd (withdraw users uname raw) \<in> {NotANumber, InvalidAmount, NotFound, InsufficientFunds}
           \<or> isNaN (js_Number raw) \<or> js_le (js_Number raw) (Fin 0)"
  shows "fst (withdraw users uname raw) = users \<and>
         snd (withdraw users uname raw) \<in> {NotANumber, InvalidAmount, NotFound, InsufficientFunds}"
  using assms js_le_not_gt [of "js_Number raw" "Fin 0"]
  by (auto simp: withdraw_cases NotANumber_def InvalidAmount_def NotFound_def
        InsufficientFunds_def split: option.splits if_splits)

theorem withdraw_error_keeps_state_witness:
  "fst (withdraw (users0 (ref_hash ''bank123'')) (Some ''customer1'') (JStr ''-3.5'')) =
     users0 (ref_hash ''bank123'') \<and>
   snd (withdraw (users0 (ref_hash ''bank123'')) (Some ''customer1'') (JStr ''-3.5''))
     \<in> {NotANumber, InvalidAmount, NotFound, InsufficientFunds}"
proof -
  have n: "js_Number (JStr ''-3.5'') = Fin (- (7 / 2))"
    by (simp add: number_eval double_eval)
  have h: "snd (withdraw (users0 (ref_hash ''bank123'')) (Some ''customer1'') (JStr ''-3.5''))
             \<in> {NotANumber, InvalidAmount, NotFound, InsufficientFunds}
           \<or> isNaN (js_Number (JStr ''-3.5'')) \<or> js_le (js_Number (JStr ''-3.5'')) (Fin 0)"
    unfolding n by simp
  show ?thesis by (rule withdraw_error_keeps_state [OF h])
qed

text \<open>
  C5. For an identity whose account resolves, the interest projection answers 200 with
  \<open>yearlyInterest = balance * interestRate\<close> and \<open>monthlyInterest = yearlyInterest / 12\<close>,
  the product and the quotient of doubles (for a finite balance \<open>b\<close> and rate \<open>r\<close> the
  yearly interest is the double nearest to \<open>b * r\<close>); it returns the store it was given,
  answers the same when called again, and leaves the account, so the balance, as it was.
\<close>

theorem projectInterest_pure:
  assumes "getAccountForReq users uname = Some acct"
  shows "projectInterest users uname =
           (users, \<lparr>status = 200,
                    body = Interest (balance acct) (interestRate acct)
                             (js_mul (balance acct) (interestRate acct))
                             (js_div (js_mul (balance acct) (interestRate acct)) (Fin 12))
                             (currency acct)\<rparr>) \<and>
         (\<forall>b r. balance acct = Fin b \<and> interestRate acct = Fin r \<longrightarrow>
            snd (projectInterest users uname) =
              \<lparr>status = 200,
               body = Interest (Fin b) (Fin r) (to_double (b * r))
                        (js_div (to_double (b * r)) (Fin 12)) (currency acct)\<rparr>) \<and>
         projectInterest (fst (projectInterest users uname)) uname =
           projectInterest users uname \<and>
         getAccountForReq (fst (projectInterest users uname)) uname = Some acct"
  using assms by (simp add: projectInterest_def Let_def)

text \<open>
  At the seed account: 2000 at the rate 0.05 gives 100 a year and 8.333333333333334 a
  month.
\<close>

theorem projectInterest_pure_witness:
  "projectInterest (users0 (ref_hash ''bank123'')) (Some ''customer1'') =
     (users0 (ref_hash ''bank123''),
      \<lparr>status = 200,
       body = Interest (Fin 2000) (Fin (3602879701896397 / 72057594037927936)) (Fin 100)
                (Fin (4691249611844267 / 562949953421312)) ''USD''\<rparr>)"
proof -
  let ?acct = "\<lparr>balance = Fin 2000, interestRate = Fin (3602879701896397 / 72057594037927936),
                 lastWithdrawal = None, currency = ''USD''\<rparr>"
  have a: "getAccountForReq (users0 (ref_hash ''bank123'')) (Some ''customer1'') = Some ?acct"
    by (rule users0_customer1)
  from projectInterest_pure [OF a] show ?thesis
    by (simp add: mul_2000_0_05 div_100_12 del: js_mul.simps js_div.simps)
qed

section \<open>The authorization header and the token\<close>

lemma js_split_no_sep: "sep \<notin> set s \<Longrightarrow> js_split sep s = [s]"
  by (induction s) auto

lemma header_parts_bearer:
  "CHR '' '' \<notin> set tok \<Longrightarrow> header_parts (Some (''Bearer '' @ tok)) = [''Bearer'', tok]"
  by (simp add: header_parts_def js_split_no_sep)

text \<open>What the middleware answers once the header has its two parts.\<close>

lemma auth_bearer:
  "CHR '' '' \<notin> set tok \<Longrightarrow>
   auth lib env clock (Some (''Bearer '' @ tok)) =
     (case jwt_verify lib tok (jwt_secret env) clock of
        None \<Rightarrow> Rejected InvalidOrExpiredToken
      | Some payload \<Rightarrow> Next (username payload))"
  using header_parts_bearer [of tok]
  by (simp add: auth_def Let_def InvalidOrExpiredToken_def split: option.split)

text \<open>A successful login answers with the token signed for the username it was given.\<close>

lemma login_token:
  "login lib cmp env clock users u password = Inr \<lparr>status = 200, body = Token tok\<rparr> \<Longrightarrow>
   tok = jwt_sign lib u (jwt_secret env) ''1h'' clock"
  by (auto simp: login_def split: js_member.splits sum.splits if_splits)

lemma ref_login:
  "login ref_jwt ref_cmp None 10 (users0 (ref_hash ''bank123'')) ''customer1'' ''bank123'' =
     Inr \<lparr>status = 200, body = Token ''customer1.iiiiiiiiii.dev-secret''\<rparr>"
  by (simp add: login_def js_get_def users0_def bcrypt_compare_def ref_cmp_def ref_jwt_def
        ref_sign_def jwt_secret_def eval_nat_numeral)

text \<open>
  C6. Let the login handler answer a token for \<open>u\<close> at second \<open>t0\<close>, and let the JWT
  library keep its contract on that token: the token holds no space, and verifying it with
  the signing secret at second \<open>t\<close> gives the payload with \<open>exp = t0 + 3600\<close> while
  \<open>t < exp\<close> and throws once \<open>t \<ge> exp\<close>. Then the middleware, given
  \<^verbatim>\<open>Bearer <token>\<close> at second \<open>t\<close> under the same environment, passes \<open>u\<close> on while
  \<open>t < t0 + 3600\<close> and rejects with \<open>InvalidOrExpiredToken\<close> from \<open>t0 + 3600\<close> on.
\<close>

theorem issued_token_validates_until_expiry:
  assumes "login lib cmp env t0 users u password = Inr \<lparr>status = 200, body = Token tok\<rparr>"
    and "CHR '' '' \<notin> set (jwt_sign lib u (jwt_secret env) ''1h'' t0)"
    and "jwt_verify lib (jwt_sign lib u (jwt_secret env) ''1h'' t0) (jwt_secret env) t =
           (if t < t0 + 3600 then Some \<lparr>username = Some u, iat = t0, exp = t0 + 3600\<rparr>
            else None)"
  shows "auth lib env t (Some (''Bearer '' @ tok)) =
           (if t < t0 + 3600 then Next (Some u) else Rejected InvalidOrExpiredToken)"
proof -
  have tok: "tok = jwt_sign lib u (jwt_secret env) ''1h'' t0"
    by (rule login_token [OF assms(1)])
  from assms(2) have "CHR '' '' \<notin> set tok" by (simp add: tok)
  from auth_bearer [OF this] assms(3) show ?thesis by (simp add: tok)
qed

theorem issued_token_validates_until_expiry_witness:
  "auth ref_jwt None 3609 (Some ''Bearer customer1.iiiiiiiiii.dev-secret'') =
     Next (Some ''customer1'') \<and>
   auth ref_jwt None 3610 (Some ''Bearer customer1.iiiiiiiiii.dev-secret'') =
     Rejected InvalidOrExpiredToken"
proof -
  have s: "jwt_sign ref_jwt ''customer1'' (jwt_secret None) ''1h'' 10 =
             ''customer1.iiiiiiiiii.dev-secret''"
    by (simp add: ref_jwt_def ref_sign_def jwt_secret_def eval_nat_numeral)
  have 2: "CHR '' '' \<notin> set (jwt_sign ref_jwt ''customer1'' (jwt_secret None) ''1h'' 10)"
    unfolding s by simp
  have v: "jwt_verify ref_jwt ''customer1.iiiiiiiiii.dev-secret'' (jwt_secret None) t =
             (if t < 10 + 3600 then Some \<lparr>username = Some ''customer1'', iat = 10, exp = 10 + 3600\<rparr>
              else None)" for t
    by (simp add: ref_jwt_def ref_verify_def jwt_secret_def)
  from issued_token_validates_until_expiry [OF ref_login 2, of 3609] v [of 3609]
  have a: "auth ref_jwt None 3609 (Some ''Bearer customer1.iiiiiiiiii.dev-secret'') =
             Next (Some ''customer1'')"
    unfolding s by simp
  from issued_token_validates_until_expiry [OF ref_login 2, of 3610] v [of 3610]
  have b: "auth ref_jwt None 3610 (Some ''Bearer customer1.iiiiiiiiii.dev-secret'') =
             Rejected InvalidOrExpiredToken"
    unfolding s by simp
  from a b show ?thesis by blast
qed

text \<open>
  C7. When the \<^verbatim>\<open>Authorization\<close> header is missing, does not split at its spaces into
  exactly two parts, or has a first part other than \<^verbatim>\<open>Bearer\<close>, the middleware rejects
  with \<open>MissingOrInvalidHeader\<close> (401), and it does so whatever the JWT library, the secret
  and the clock are: the answer does not depend on any verification.
\<close>

theorem auth_rejects_malformed_header:
  assumes "authorization = None \<or> length (header_parts authorization) \<noteq> 2 \<or>
           header_parts authorization ! 0 \<noteq> ''Bearer''"
  shows "auth lib env clock authorization = Rejected MissingOrInvalidHeader \<and>
         status MissingOrInvalidHeader = 401 \<and>
         auth lib' env' clock' authorization = auth lib env clock authorization"
  using assms
  by (auto simp: auth_def Let_def MissingOrInvalidHeader_def header_parts_def)

theorem auth_rejects_malformed_header_witness:
  "auth ref_jwt None 0 None = Rejected MissingOrInvalidHeader \<and>
   auth ref_jwt None 0 (Some ''Basic customer1.i.dev-secret'') = Rejected MissingOrInvalidHeader \<and>
   auth ref_jwt None 0 (Some ''Bearer customer1.i.dev-secret extra'') =
     Rejected MissingOrInvalidHeader \<and>
   auth ref_jwt None 0 (Some ''Bearer  customer1.i.dev-secret'') =
     Rejected MissingOrInvalidHeader \<and>
   auth ref_jwt None 0 (Some ''customer1.i.dev-secret'') = Rejected MissingOrInvalidHeader"
proof -
  have 1: "None = None \<or> length (header_parts None) \<noteq> 2 \<or> header_parts None ! 0 \<noteq> ''Bearer''"
    by simp
  have 2: "Some ''Basic customer1.i.dev-secret'' = None \<or>
           length (header_parts (Some ''Basic customer1.i.dev-secret'')) \<noteq> 2 \<or>
           header_parts (Some ''Basic customer1.i.dev-secret'') ! 0 \<noteq> ''Bearer''"
    by (simp add: header_parts_def)
  have 3: "Some ''Bearer customer1.i.dev-secret extra'' = None \<or>
           length (header_parts (Some ''Bearer customer1.i.dev-secret extra'')) \<noteq> 2 \<or>
           header_parts (Some ''Bearer customer1.i.dev-secret extra'') ! 0 \<noteq> ''Bearer''"
    by (simp add: header_parts_def)
  have 4: "Some ''Bearer  customer1.i.dev-secret'' = None \<or>
           length (header_parts (Some ''Bearer  customer1.i.dev-secret'')) \<noteq> 2 \<or>
           header_parts (Some ''Bearer  customer1.i.dev-secret'') ! 0 \<noteq> ''Bearer''"
    by (simp add: header_parts_def)
  have 5: "Some ''customer1.i.dev-secret'' = None \<or>
           length (header_parts (Some ''customer1.i.dev-secret'')) \<noteq> 2 \<or>
           header_parts (Some ''customer1.i.dev-secret'') ! 0 \<noteq> ''Bearer''"
    by (simp add: header_parts_def)
  note r = auth_rejects_malformed_header [where lib = ref_jwt and env = None and clock = 0
      and lib' = ref_jwt and env' = None and clock' = 0]
  from r [OF 1] r [OF 2] r [OF 3] r [OF 4] r [OF 5]
  show ?thesis by blast
qed

section \<open>Principals the store does not hold\<close>

lemma ref_verify_ghost:
  "jwt_verify ref_jwt ''ghost.i.dev-secret'' (jwt_secret None) 100 =
     Some \<lparr>username = Some ''ghost'', iat = 1, exp = 3601\<rparr>"
  by (simp add: ref_jwt_def ref_verify_def jwt_secret_def)

lemma ref_auth_ghost:
  "auth ref_jwt None 100 (Some ''Bearer ghost.i.dev-secret'') = Next (Some ''ghost'')"
proof -
  have "CHR '' '' \<notin> set ''ghost.i.dev-secret''" by simp
  from auth_bearer [OF this, of ref_jwt None 100] show ?thesis
    by (simp add: ref_verify_ghost)
qed

lemma absent_no_account: "users u = None \<Longrightarrow> getAccountForReq users (Some u) = None"
  by (simp add: getAccountForReq_def js_get_def)

text \<open>
  C9, as stated, fails: with a verified token for \<^verbatim>\<open>ghost\<close>, who is not in the seed
  store, a withdraw of amount 0 is answered \<open>InvalidAmount\<close> (400), not \<open>NotFound\<close>
  (404), because the amount checks come before the account is looked up.
\<close>

theorem absent_principal_withdraw_counterexample:
  "auth ref_jwt None 100 (Some ''Bearer ghost.i.dev-secret'') = Next (Some ''ghost'') \<and>
   getAccountForReq (users0 (ref_hash ''bank123'')) (Some ''ghost'') = None \<and>
   withdraw_route ref_jwt None 100 (Some ''Bearer ghost.i.dev-secret'') (JNum (Fin 0))
     (users0 (ref_hash ''bank123'')) = (users0 (ref_hash ''bank123''), InvalidAmount) \<and>
   status InvalidAmount = 400 \<and> InvalidAmount \<noteq> NotFound"
  by (simp add: withdraw_route_def ref_auth_ghost users0_ghost withdraw_cases isNaN_def
        js_gt_def InvalidAmount_def NotFound_def)

text \<open>
  C9, amended. The middleware never reads the store: for a token without a space that the
  JWT library verifies, it passes the payload's username on, whoever that is. When that
  username is not a key of the store, \<^verbatim>\<open>GET /\<close> and \<^verbatim>\<open>GET /interest\<close> answer \<open>NotFound\<close>
  (404); withdraw answers \<open>NotFound\<close> when its coerced amount is a number above zero, and
  \<open>NotANumber\<close> or \<open>InvalidAmount\<close> (400) otherwise; none of the three answers 401 and
  none changes the store.
\<close>

theorem absent_principal_not_found:
  assumes "CHR '' '' \<notin> set tok"
    and "jwt_verify lib tok (jwt_secret env) clock = Some payload"
    and "username payload = Some u" and "users u = None"
  shows "auth lib env clock (Some (''Bearer '' @ tok)) = Next (username payload) \<and>
         account_route lib env clock (Some (''Bearer '' @ tok)) users = (users, NotFound) \<and>
         interest_route lib env clock (Some (''Bearer '' @ tok)) users = (users, NotFound) \<and>
         withdraw_route lib env clock (Some (''Bearer '' @ tok)) raw users =
           (users, if isNaN (js_Number raw) then NotANumber
                   else if js_gt (js_Number raw) (Fin 0) then NotFound
                   else InvalidAmount) \<and>
         status NotFound = 404 \<and>
         status (snd (withdraw_route lib env clock (Some (''Bearer '' @ tok)) raw users)) \<noteq> 401"
proof -
  have n: "getAccountForReq users (username payload) = None"
    using absent_no_account [of users u] assms(3) assms(4) by simp
  have a: "auth lib env clock (Some (''Bearer '' @ tok)) = Next (username payload)"
    using auth_bearer [OF assms(1), of lib env clock] assms(2) by simp
  have w: "withdraw users (username payload) raw =
             (users, if isNaN (js_Number raw) then NotANumber
                     else if js_gt (js_Number raw) (Fin 0) then NotFound
                     else InvalidAmount)"
    using n by (simp add: withdraw_cases)
  have g: "getAccount users (username payload) = (users, NotFound)"
    using n by (simp add: getAccount_def NotFound_def)
  have i: "projectInterest users (username payload) = (users, NotFound)"
    using n by (simp add: projectInterest_def NotFound_def)
  have s: "status (if isNaN (js_Number raw) then NotANumber
                   else if js_gt (js_Number raw) (Fin 0) then NotFound
                   else InvalidAmount) \<noteq> 401"
    by (simp add: NotANumber_def NotFound_def InvalidAmount_def)
  show ?thesis
    unfolding account_route_def interest_route_def withdraw_route_def a
    using w g i s by (simp add: NotFound_def)
qed

theorem absent_principal_not_found_witness:
  "account_route ref_jwt None 100 (Some ''Bearer ghost.i.dev-secret'')
     (users0 (ref_hash ''bank123'')) = (users0 (ref_hash ''bank123''), NotFound) \<and>
   interest_route ref_jwt None 100 (Some ''Bearer ghost.i.dev-secret'')
     (users0 (ref_hash ''bank123'')) = (users0 (ref_hash ''bank123''), NotFound) \<and>
   withdraw_route ref_jwt None 100 (Some ''Bearer ghost.i.dev-secret'') (JNum (Fin 50))
     (users0 (ref_hash ''bank123'')) = (users0 (ref_hash ''bank123''), NotFound)"
proof -
  have 1: "CHR '' '' \<notin> set ''ghost.i.dev-secret''" by simp
  have 3: "username \<lparr>username = Some ''ghost'', iat = 1, exp = 3601\<rparr> = Some ''ghost''"
    by simp
  have 4: "users0 (ref_hash ''bank123'') ''ghost'' = None" by (simp add: users0_def)
  from absent_principal_not_found [where users = "users0 (ref_hash ''bank123'')"
      and u = "''ghost''" and raw = "JNum (Fin 50)", OF 1 ref_verify_ghost 3 4]
  show ?thesis by (simp add: isNaN_def js_gt_def)
qed

section \<open>The coercion of the amount\<close>

lemma trim_all_ws:
  assumes "list_all is_ws s"
  shows "js_trim s = []"
proof -
  from assms have d: "dropWhile is_ws s = []" by (induction s) auto
  show ?thesis unfolding js_trim_def d by simp
qed

lemma Number_fifty: "js_Number (JStr ''50'') = Fin 50"
  by (simp add: number_eval double_eval)

text \<open>
  C10, as stated, fails for a missing amount: \<^verbatim>\<open>Number(undefined)\<close> is \<open>NaN\<close>, not 0,
  and the request is answered \<open>NotANumber\<close>, not \<open>InvalidAmount\<close>.
\<close>

theorem missing_amount_counterexample:
  "js_Number JUndefined = NaN \<and> js_Number JUndefined \<noteq> Fin 0 \<and>
   withdraw (users0 (ref_hash ''bank123'')) (Some ''customer1'') JUndefined =
     (users0 (ref_hash ''bank123''), NotANumber) \<and>
   NotANumber \<noteq> InvalidAmount"
  by (simp add: withdraw_cases isNaN_def NotANumber_def InvalidAmount_def)

text \<open>
  C10, amended. The amount is coerced with \<^verbatim>\<open>Number()\<close> before the numeric check.
  \<^verbatim>\<open>null\<close> and every string of white space only (the empty string too) coerce to 0 and
  are answered \<open>InvalidAmount\<close>; a missing amount coerces to \<open>NaN\<close> and is answered
  \<open>NotANumber\<close>. \<^verbatim>\<open>true\<close> coerces to 1 and the string \<^verbatim>\<open>"50"\<close> to 50: both pass the
  numeric check, and on the seed account each is a successful withdrawal.
\<close>

theorem amount_coercion:
  "js_Number JUndefined = NaN \<and>
   withdraw users uname JUndefined = (users, NotANumber) \<and>
   js_Number JNull = Fin 0 \<and>
   withdraw users uname JNull = (users, InvalidAmount) \<and>
   (list_all is_ws s \<longrightarrow>
      js_Number (JStr s) = Fin 0 \<and> withdraw users uname (JStr s) = (users, InvalidAmount)) \<and>
   js_Number (JBool True) = Fin 1 \<and>
   js_Number (JStr ''50'') = Fin 50 \<and>
   snd (withdraw (users0 h) (Some ''customer1'') (JBool True)) =
     \<lparr>status = 200,
      body = Withdrawal ''Withdrawal successful'' (Fin 1999) (Some (Fin 1))\<rparr> \<and>
   snd (withdraw (users0 h) (Some ''customer1'') (JStr ''50'')) =
     \<lparr>status = 200,
      body = Withdrawal ''Withdrawal successful'' (Fin 1950) (Some (Fin 50))\<rparr>"
proof -
  have ws: "js_Number (JStr s) = Fin 0" if "list_all is_ws s"
    using trim_all_ws [OF that] by (simp add: StringToNumber_def)
  have z: "withdraw users uname raw = (users, InvalidAmount)" if "js_Number raw = Fin 0" for raw
    using that by (simp add: withdraw_cases isNaN_def js_gt_def)
  have u: "withdraw users uname JUndefined = (users, NotANumber)"
    by (simp add: withdraw_cases isNaN_def)
  have t: "snd (withdraw (users0 h) (Some ''customer1'') (JBool True)) =
     \<lparr>status = 200,
      body = Withdrawal ''Withdrawal successful'' (Fin 1999) (Some (Fin 1))\<rparr>"
    by (simp add: withdraw_cases isNaN_def js_gt_def users0_customer1 double_eval)
  have f: "snd (withdraw (users0 h) (Some ''customer1'') (JStr ''50'')) =
     \<lparr>status = 200,
      body = Withdrawal ''Withdrawal successful'' (Fin 1950) (Some (Fin 50))\<rparr>"
    by (simp add: withdraw_cases Number_fifty isNaN_def js_gt_def users0_customer1
          double_eval del: js_Number.simps)
  from ws z u t f Number_fifty show ?thesis by simp
qed

theorem amount_coercion_witness:
  "js_Number (JStr '' '') = Fin 0 \<and>
   withdraw (users0 (ref_hash ''bank123'')) (Some ''customer1'') (JStr '' '') =
     (users0 (ref_hash ''bank123''), InvalidAmount) \<and>
   js_Number (JStr []) = Fin 0 \<and>
   withdraw (users0 (ref_hash ''bank123'')) (Some ''customer1'') (JStr []) =
     (users0 (ref_hash ''bank123''), InvalidAmount)"
proof -
  have 1: "list_all is_ws '' ''" by (simp add: is_ws_def)
  have 2: "list_all is_ws []" by simp
  from amount_coercion [of "users0 (ref_hash ''bank123'')" "Some ''customer1''" "'' ''"] 1
    amount_coercion [of "users0 (ref_hash ''bank123'')" "Some ''customer1''" "[]"] 2
  show ?thesis by blast
qed

section \<open>Login with a username the store does not hold\<close>

text \<open>
  C8. For a username that \<^verbatim>\<open>users[username]\<close> does not find, the handler answers 401
  \<^verbatim>\<open>Invalid credentials\<close>, as it does for a wrong password. The username
  \<^verbatim>\<open>constructor\<close> is not in the seed store, but \<^verbatim>\<open>users['constructor']\<close> is the member
  inherited from \<^verbatim>\<open>Object.prototype\<close>: the handler goes on to \<^verbatim>\<open>bcrypt.compare\<close> with
  an undefined hash and throws, so it sends no 401.
\<close>

theorem login_inherited_key_throws:
  "users0 h ''constructor'' = None \<and>
   login lib cmp env clock (users0 h) ''constructor'' password =
     Inl ''Illegal arguments: string, undefined'' \<and>
   login lib cmp env clock (users0 h) ''constructor'' password \<noteq> Inr InvalidCredentials \<and>
   login lib cmp env clock (users0 h) ''nobody'' password = Inr InvalidCredentials \<and>
   login lib ref_cmp env clock (users0 (ref_hash ''bank123'')) ''customer1'' ''wrong'' =
     Inr InvalidCredentials"
  by (simp add: login_def js_get_def users0_def object_prototype_keys_def bcrypt_compare_def
        InvalidCredentials_def ref_cmp_def ref_hash_def)

end
